theory Spec2Isabelle
  imports Main
begin

section \<open>The restricted execution of \<open>src/app.py\<close>\<close>

text \<open>
  The function under study is \<^verbatim>\<open>execute_code_safely\<close> (\<open>src/app.py\<close>, lines 171 to 207):
  \<^verbatim>\<open>
  def execute_code_safely(code: str) -> str:
      old_stdout = sys.stdout
      sys.stdout = captured_output = io.StringIO()
      try:
          exec_globals = {'__builtins__': {'print': print, 'len': len, ...}}
          exec(code, exec_globals)
          output = captured_output.getvalue()
          return output if output else "Code executed successfully (no output)"
      except Exception as e:
          return f"Error: {str(e)}"
      finally:
          sys.stdout = old_stdout
  \<close>
  It touches one piece of shared state, the variable \<^verbatim>\<open>sys.stdout\<close>, and one host
  primitive, \<^verbatim>\<open>exec\<close>. The state is passed explicitly; the primitive is a parameter of
  the model, so that the general theorems hold for every behaviour of the interpreter.
\<close>

subsection \<open>Process state: text streams and \<open>sys.stdout\<close>\<close>

text \<open>
  Stream objects live in a store indexed by addresses. \<open>sys_stdout\<close> is the address the
  variable \<^verbatim>\<open>sys.stdout\<close> refers to, \<open>streams\<close> gives the text written to each stream so
  far, and \<open>fresh\<close> is the next address that \<^verbatim>\<open>io.StringIO()\<close> hands out.
\<close>

record process =
  sys_stdout :: nat
  streams :: "nat \<Rightarrow> string"
  fresh :: nat

definition StringIO :: "process \<Rightarrow> nat \<times> process" where
  "StringIO s = (fresh s, s\<lparr>streams := (streams s)(fresh s := []), fresh := Suc (fresh s)\<rparr>)"

definition getvalue :: "process \<Rightarrow> nat \<Rightarrow> string" where
  "getvalue s a = streams s a"

definition write_stream :: "nat \<Rightarrow> string \<Rightarrow> process \<Rightarrow> process" where
  "write_stream a t s = s\<lparr>streams := (streams s)(a := streams s a @ t)\<rparr>"

subsection \<open>Values, exceptions and the outcome of \<open>exec\<close>\<close>

text \<open>The sixteen host primitives that the dictionary literal of lines 180 to 197 names.\<close>

datatype builtin =
  BPrint | BLen | BStr | BInt | BFloat | BList | BDict | BRange | BEnumerate | BZip
  | BMax | BMin | BSum | BSorted | BAbs | BRound

datatype pyval =
  VInt int
  | VStr string
  | VBuiltin builtin
  | VDict "(string \<times> pyval) list"

text \<open>
  A raised exception, as far as the handler of line 204 inspects it: the name of its class,
  whether it is an instance of \<^verbatim>\<open>Exception\<close> (the test of \<^verbatim>\<open>except Exception\<close>; the
  classes \<^verbatim>\<open>SystemExit\<close>, \<^verbatim>\<open>KeyboardInterrupt\<close> and \<^verbatim>\<open>GeneratorExit\<close> derive from
  \<^verbatim>\<open>BaseException\<close> only), and the text \<^verbatim>\<open>str(e)\<close>. The model takes \<^verbatim>\<open>str(e)\<close> and
  \<^verbatim>\<open>getvalue()\<close> to return a text: an exception whose \<^verbatim>\<open>__str__\<close> raises, and a source that
  closes the captured stream, are outside it.
\<close>

record py_exception =
  exc_class :: string
  is_Exception :: bool
  exc_str :: string

datatype exec_result = Completed | Raised py_exception

text \<open>
  The host primitive \<^verbatim>\<open>exec(code, globals)\<close>: it runs in a process state and either
  never returns (\<open>None\<close>) or returns with a result and a new process state.
\<close>

type_synonym exec_fun =
  "string \<Rightarrow> (string \<times> pyval) list \<Rightarrow> process \<Rightarrow> (exec_result \<times> process) option"

text \<open>What the caller of \<^verbatim>\<open>execute_code_safely\<close> sees: a returned string, or an exception.\<close>

datatype outcome = Returned string | Propagated py_exception

subsection \<open>The capability allowlist\<close>

text \<open>Lines 180 to 197, in the order of the dictionary literal.\<close>

definition allowlist :: "(string \<times> builtin) list" where
  "allowlist =
    [(''print'', BPrint), (''len'', BLen), (''str'', BStr), (''int'', BInt), (''float'', BFloat),
     (''list'', BList), (''dict'', BDict), (''range'', BRange), (''enumerate'', BEnumerate),
     (''zip'', BZip), (''max'', BMax), (''min'', BMin), (''sum'', BSum), (''sorted'', BSorted),
     (''abs'', BAbs), (''round'', BRound)]"

definition exec_globals :: "(string \<times> pyval) list" where
  "exec_globals = [(''__builtins__'', VDict (map (\<lambda>(k, b). (k, VBuiltin b)) allowlist))]"

subsection \<open>\<open>execute_code_safely\<close>\<close>

text \<open>Lines 174 and 175: remember the current stream, make a new one the standard output.\<close>

definition redirect_stdout :: "process \<Rightarrow> nat \<times> process" where
  "redirect_stdout s = (let (captured_output, s1) = StringIO s
                        in (captured_output, s1\<lparr>sys_stdout := captured_output\<rparr>))"

text \<open>
  Lines 171 to 207. The \<^verbatim>\<open>finally\<close> clause runs on each of the three ways out of the
  \<^verbatim>\<open>try\<close> block: the \<^verbatim>\<open>return\<close> of line 202, the \<^verbatim>\<open>return\<close> of line 205, and an
  exception that \<^verbatim>\<open>except Exception\<close> does not match. When \<^verbatim>\<open>exec\<close> never returns, neither
  does the function.
\<close>

definition execute_code_safely :: "exec_fun \<Rightarrow> string \<Rightarrow> process \<Rightarrow> (outcome \<times> process) option" where
  "execute_code_safely exec code s =
    (let old_stdout = sys_stdout s;
         (captured_output, s2) = redirect_stdout s
     in case exec code exec_globals s2 of
          None \<Rightarrow> None
        | Some (Completed, s3) \<Rightarrow>
            (let output = getvalue s3 captured_output
             in Some (Returned (if output \<noteq> [] then output
                                else ''Code executed successfully (no output)''),
                      s3\<lparr>sys_stdout := old_stdout\<rparr>))
        | Some (Raised e, s3) \<Rightarrow>
            (if is_Exception e
             then Some (Returned (''Error: '' @ exc_str e), s3\<lparr>sys_stdout := old_stdout\<rparr>)
             else Some (Propagated e, s3\<lparr>sys_stdout := old_stdout\<rparr>)))"

subsection \<open>A fragment of the host interpreter\<close>

text \<open>
  \<^verbatim>\<open>exec\<close> belongs to the host, not to the repository. The general theorems below hold
  for every \<open>exec_fun\<close>. To evaluate \<^verbatim>\<open>execute_code_safely\<close> on concrete source texts,
  \<open>python_exec\<close> gives the behaviour of CPython 3 for programs made of these lines, run
  with the dictionary of line 179 as globals:
  \<^item> an empty line, or \<^verbatim>\<open>pass\<close>;
  \<^item> \<^verbatim>\<open>NAME = LITERAL\<close>, with a decimal integer of at most 15 digits or a single-quoted
    string of printable ASCII without quote and backslash;
  \<^item> \<^verbatim>\<open>print(ATOM)\<close>, with a literal or a name;
  \<^item> \<^verbatim>\<open>INT/INT\<close>, a true division whose value is dropped;
  \<^item> \<^verbatim>\<open>raise NAME.__self__.CLASS()\<close>: the attribute \<^verbatim>\<open>__self__\<close> of a built-in function is
    the module \<^verbatim>\<open>builtins\<close>, whose attributes include every exception class;
  \<^item> \<^verbatim>\<open>try: SIMPLE\<close> followed by the line \<^verbatim>\<open>except: pass\<close>;
  \<^item> \<^verbatim>\<open>while True: pass\<close>.
  The whole text is parsed before any line runs, as the host does. A text outside these
  forms, and a run that leaves them (a call of a primitive other than \<^verbatim>\<open>print\<close>, the text
  of a dictionary), is not modelled: \<open>python_exec\<close> then reports the exception
  \<open>not_modelled\<close>, which no host run produces, and no theorem below evaluates it there.
  On texts of the fragment the definitions were compared with CPython 3.11.
\<close>

subsubsection \<open>Lexical classes\<close>

text \<open>
  Names are ASCII identifiers other than the keywords and \<^verbatim>\<open>__debug__\<close>, which the
  compiler treats as a constant. Integer literals have no leading zero and at most 15
  digits, so that a true division of two of them never overflows a float. String
  literals are single-quoted, without escapes.
\<close>

definition is_digit :: "char \<Rightarrow> bool" where
  "is_digit c \<longleftrightarrow> c \<in> set ''0123456789''"

definition is_id_start :: "char \<Rightarrow> bool" where
  "is_id_start c \<longleftrightarrow> c \<in> set ''abcdefghijklmnopqrstuvwxyzABCDEFGHIJKLMNOPQRSTUVWXYZ_''"

definition is_id_char :: "char \<Rightarrow> bool" where
  "is_id_char c \<longleftrightarrow> is_id_start c \<or> is_digit c"

definition py_keywords :: "string list" where
  "py_keywords =
    [''False'', ''None'', ''True'', ''and'', ''as'', ''assert'', ''async'', ''await'',
     ''break'', ''class'', ''continue'', ''def'', ''del'', ''elif'', ''else'', ''except'',
     ''finally'', ''for'', ''from'', ''global'', ''if'', ''import'', ''in'', ''is'',
     ''lambda'', ''nonlocal'', ''not'', ''or'', ''pass'', ''raise'', ''return'', ''try'',
     ''while'', ''with'', ''yield'', ''__debug__'']"

definition is_identifier :: "string \<Rightarrow> bool" where
  "is_identifier t \<longleftrightarrow>
     (case t of [] \<Rightarrow> False
      | c # cs \<Rightarrow> is_id_start c \<and> list_all is_id_char cs \<and> t \<notin> set py_keywords)"

definition is_int_literal :: "string \<Rightarrow> bool" where
  "is_int_literal t \<longleftrightarrow>
     (case t of [] \<Rightarrow> False
      | c # cs \<Rightarrow>
          list_all is_digit t \<and> length t \<le> 15 \<and> (if c = CHR ''0'' then cs = [] else True))"

definition digit_value :: "char \<Rightarrow> nat" where
  "digit_value c = of_char c - 48"

definition int_of_literal :: "string \<Rightarrow> int" where
  "int_of_literal t = int (foldl (\<lambda>n c. 10 * n + digit_value c) 0 t)"

definition is_str_char :: "char \<Rightarrow> bool" where
  "is_str_char c \<longleftrightarrow>
     32 \<le> (of_char c :: nat) \<and> (of_char c :: nat) \<le> 126 \<and> c \<noteq> CHR 0x27 \<and> c \<noteq> CHR 0x5C"

definition is_str_literal :: "string \<Rightarrow> bool" where
  "is_str_literal t \<longleftrightarrow>
     (case t of [] \<Rightarrow> False
      | c # cs \<Rightarrow> c = CHR 0x27 \<and> cs \<noteq> [] \<and> last cs = CHR 0x27 \<and> list_all is_str_char (butlast cs))"

subsubsection \<open>Syntax\<close>

text \<open>
  One constructor for each statement form. A line is matched as a whole: a text with
  more blanks than the forms show is left out of the fragment, not misread.
\<close>

datatype expr = IntLit int | StrLit string | Name string

datatype stmt =
  Pass
  | Assign string expr
  | PrintCall expr
  | TrueDiv int int
  | RaiseHost string string
  | TryExceptPass stmt
  | WhileTruePass

definition strip_prefix :: "string \<Rightarrow> string \<Rightarrow> string option" where
  "strip_prefix p t = (if take (length p) t = p then Some (drop (length p) t) else None)"

definition strip_suffix :: "string \<Rightarrow> string \<Rightarrow> string option" where
  "strip_suffix p t =
     (if length p \<le> length t \<and> drop (length t - length p) t = p
      then Some (take (length t - length p) t) else None)"

definition parse_literal :: "string \<Rightarrow> expr option" where
  "parse_literal t =
     (if is_int_literal t then Some (IntLit (int_of_literal t))
      else if is_str_literal t then Some (StrLit (butlast (tl t)))
      else None)"

definition parse_atom :: "string \<Rightarrow> expr option" where
  "parse_atom t =
     (case parse_literal t of
        Some e \<Rightarrow> Some e
      | None \<Rightarrow> if is_identifier t then Some (Name t) else None)"

definition parse_raise :: "string \<Rightarrow> stmt option" where
  "parse_raise r =
     (let f = takeWhile is_id_char r
      in case strip_prefix ''.__self__.'' (dropWhile is_id_char r) of
           None \<Rightarrow> None
         | Some r' \<Rightarrow>
             (let c = takeWhile is_id_char r'
              in if is_identifier f \<and> is_identifier c \<and> dropWhile is_id_char r' = ''()''
                 then Some (RaiseHost f c) else None))"

definition parse_simple :: "string \<Rightarrow> stmt option" where
  "parse_simple t =
     (if t = ''pass'' then Some Pass
      else case strip_prefix ''raise '' t of
        Some r \<Rightarrow> parse_raise r
      | None \<Rightarrow>
       (case strip_prefix ''print('' t of
          Some r \<Rightarrow>
            (case strip_suffix '')'' r of
               Some a \<Rightarrow> map_option PrintCall (parse_atom a)
             | None \<Rightarrow> None)
        | None \<Rightarrow>
            (let x = takeWhile is_id_char t; r = dropWhile is_id_char t
             in if is_identifier x
                then (case strip_prefix '' = '' r of
                        Some l \<Rightarrow> map_option (Assign x) (parse_literal l)
                      | None \<Rightarrow> None)
                else if is_int_literal x
                then (case strip_prefix ''/'' r of
                        Some b \<Rightarrow>
                          if is_int_literal b
                          then Some (TrueDiv (int_of_literal x) (int_of_literal b))
                          else None
                      | None \<Rightarrow> None)
                else None)))"

fun parse_lines :: "string list \<Rightarrow> stmt list option" where
  "parse_lines [] = Some []"
| "parse_lines (l # ls) =
     (if l = [] then parse_lines ls
      else if l = ''while True: pass'' then map_option ((#) WhileTruePass) (parse_lines ls)
      else case strip_prefix ''try: '' l of
             Some b \<Rightarrow>
               (case ls of
                  [] \<Rightarrow> None
                | h # rest \<Rightarrow>
                    if h = ''except: pass''
                    then (case parse_simple b of
                            None \<Rightarrow> None
                          | Some st \<Rightarrow> map_option ((#) (TryExceptPass st)) (parse_lines rest))
                    else None)
           | None \<Rightarrow>
               (case parse_simple l of
                  None \<Rightarrow> None
                | Some st \<Rightarrow> map_option ((#) st) (parse_lines ls)))"

fun split_lines :: "string \<Rightarrow> string list" where
  "split_lines [] = [[]]"
| "split_lines (c # cs) =
     (if c = CHR 0x0A then [] # split_lines cs
      else (case split_lines cs of
              [] \<Rightarrow> [[c]]
            | l # ls \<Rightarrow> (c # l) # ls))"

definition parse :: "string \<Rightarrow> stmt list option" where
  "parse code = parse_lines (split_lines code)"


subsubsection \<open>Evaluation\<close>

text \<open>
  The exceptions of the fragment, with the texts the host gives them. A name is looked
  up in the globals first, which hold the variables the source has bound, then in the
  dictionary under \<^verbatim>\<open>__builtins__\<close>, read once when the run starts. A call evaluates the
  callee, then the argument, then calls. A bare \<^verbatim>\<open>except\<close> catches every exception.
\<close>

definition name_error :: "string \<Rightarrow> py_exception" where
  "name_error x =
     \<lparr>exc_class = ''NameError'', is_Exception = True,
      exc_str = ''name '' @ [CHR 0x27] @ x @ [CHR 0x27] @ '' is not defined''\<rparr>"

definition zero_division_error :: py_exception where
  "zero_division_error =
     \<lparr>exc_class = ''ZeroDivisionError'', is_Exception = True, exc_str = ''division by zero''\<rparr>"

definition not_callable :: "string \<Rightarrow> py_exception" where
  "not_callable ty =
     \<lparr>exc_class = ''TypeError'', is_Exception = True,
      exc_str = [CHR 0x27] @ ty @ [CHR 0x27] @ '' object is not callable''\<rparr>"

definition no_self_attribute :: "string \<Rightarrow> py_exception" where
  "no_self_attribute owner =
     \<lparr>exc_class = ''AttributeError'', is_Exception = True,
      exc_str = owner @ '' has no attribute '' @ [CHR 0x27] @ ''__self__'' @ [CHR 0x27]\<rparr>"

definition is_function :: "builtin \<Rightarrow> bool" where
  "is_function b \<longleftrightarrow> b \<in> set [BPrint, BLen, BMax, BMin, BSum, BSorted, BAbs, BRound]"

definition builtin_name :: "builtin \<Rightarrow> string" where
  "builtin_name b =
     (case b of
        BPrint \<Rightarrow> ''print'' | BLen \<Rightarrow> ''len'' | BStr \<Rightarrow> ''str'' | BInt \<Rightarrow> ''int''
      | BFloat \<Rightarrow> ''float'' | BList \<Rightarrow> ''list'' | BDict \<Rightarrow> ''dict'' | BRange \<Rightarrow> ''range''
      | BEnumerate \<Rightarrow> ''enumerate'' | BZip \<Rightarrow> ''zip'' | BMax \<Rightarrow> ''max'' | BMin \<Rightarrow> ''min''
      | BSum \<Rightarrow> ''sum'' | BSorted \<Rightarrow> ''sorted'' | BAbs \<Rightarrow> ''abs'' | BRound \<Rightarrow> ''round'')"

definition digit_char :: "nat \<Rightarrow> char" where
  "digit_char d = char_of (48 + d)"

function show_nat :: "nat \<Rightarrow> string" where
  "show_nat n = (if n < 10 then [digit_char n] else show_nat (n div 10) @ [digit_char (n mod 10)])"
  by pat_completeness auto
termination
  by (relation "measure id") auto

declare show_nat.simps [simp del]

definition show_int :: "int \<Rightarrow> string" where
  "show_int i = (if i < 0 then ''-'' @ show_nat (nat (- i)) else show_nat (nat i))"

definition py_str :: "pyval \<Rightarrow> string option" where
  "py_str v =
     (case v of
        VInt i \<Rightarrow> Some (show_int i)
      | VStr t \<Rightarrow> Some t
      | VBuiltin b \<Rightarrow>
          Some (if is_function b then ''<built-in function '' @ builtin_name b @ ''>''
                else ''<class '' @ [CHR 0x27] @ builtin_name b @ [CHR 0x27] @ ''>'')
      | VDict d \<Rightarrow> None)"

definition host_exception_classes :: "(string \<times> bool) list" where
  "host_exception_classes =
     [(''BaseException'', False), (''SystemExit'', False), (''KeyboardInterrupt'', False),
      (''GeneratorExit'', False), (''Exception'', True), (''ValueError'', True),
      (''TypeError'', True), (''RuntimeError'', True)]"

type_synonym env = "string \<rightharpoonup> pyval"

definition resolve :: "env \<Rightarrow> env \<Rightarrow> string \<Rightarrow> pyval option" where
  "resolve vars builtins x = (case vars x of Some v \<Rightarrow> Some v | None \<Rightarrow> builtins x)"

fun eval :: "env \<Rightarrow> env \<Rightarrow> expr \<Rightarrow> py_exception + pyval" where
  "eval vars builtins (IntLit i) = Inr (VInt i)"
| "eval vars builtins (StrLit t) = Inr (VStr t)"
| "eval vars builtins (Name x) =
     (case resolve vars builtins x of None \<Rightarrow> Inl (name_error x) | Some v \<Rightarrow> Inr v)"

datatype run_result = Finished exec_result env process | Diverges | Unmodelled

definition call :: "pyval \<Rightarrow> pyval \<Rightarrow> env \<Rightarrow> process \<Rightarrow> run_result" where
  "call f v vars s =
     (case f of
        VInt i \<Rightarrow> Finished (Raised (not_callable ''int'')) vars s
      | VStr t \<Rightarrow> Finished (Raised (not_callable ''str'')) vars s
      | VDict d \<Rightarrow> Finished (Raised (not_callable ''dict'')) vars s
      | VBuiltin b \<Rightarrow>
          if b = BPrint
          then (case py_str v of
                  Some t \<Rightarrow> Finished Completed vars (write_stream (sys_stdout s) (t @ [CHR 0x0A]) s)
                | None \<Rightarrow> Unmodelled)
          else Unmodelled)"

definition raise_host :: "pyval \<Rightarrow> string \<Rightarrow> env \<Rightarrow> process \<Rightarrow> run_result" where
  "raise_host f c vars s =
     (case f of
        VInt i \<Rightarrow> Finished (Raised (no_self_attribute ([CHR 0x27] @ ''int'' @ [CHR 0x27] @ '' object''))) vars s
      | VStr t \<Rightarrow> Finished (Raised (no_self_attribute ([CHR 0x27] @ ''str'' @ [CHR 0x27] @ '' object''))) vars s
      | VDict d \<Rightarrow> Finished (Raised (no_self_attribute ([CHR 0x27] @ ''dict'' @ [CHR 0x27] @ '' object''))) vars s
      | VBuiltin b \<Rightarrow>
          if is_function b
          then (case map_of host_exception_classes c of
                  Some ie \<Rightarrow> Finished (Raised \<lparr>exc_class = c, is_Exception = ie, exc_str = []\<rparr>) vars s
                | None \<Rightarrow> Unmodelled)
          else Finished (Raised (no_self_attribute
                 (''type object '' @ [CHR 0x27] @ builtin_name b @ [CHR 0x27]))) vars s)"

fun run_stmt :: "env \<Rightarrow> stmt \<Rightarrow> env \<Rightarrow> process \<Rightarrow> run_result" where
  "run_stmt builtins Pass vars s = Finished Completed vars s"
| "run_stmt builtins (Assign x e) vars s =
     (case eval vars builtins e of
        Inl ex \<Rightarrow> Finished (Raised ex) vars s
      | Inr v \<Rightarrow> Finished Completed (vars(x \<mapsto> v)) s)"
| "run_stmt builtins (PrintCall e) vars s =
     (case resolve vars builtins ''print'' of
        None \<Rightarrow> Finished (Raised (name_error ''print'')) vars s
      | Some f \<Rightarrow>
          (case eval vars builtins e of
             Inl ex \<Rightarrow> Finished (Raised ex) vars s
           | Inr v \<Rightarrow> call f v vars s))"
| "run_stmt builtins (TrueDiv a b) vars s =
     (if b = 0 then Finished (Raised zero_division_error) vars s else Finished Completed vars s)"
| "run_stmt builtins (RaiseHost f c) vars s =
     (case resolve vars builtins f of
        None \<Rightarrow> Finished (Raised (name_error f)) vars s
      | Some v \<Rightarrow> raise_host v c vars s)"
| "run_stmt builtins (TryExceptPass st) vars s =
     (case run_stmt builtins st vars s of
        Finished (Raised ex) vars' s' \<Rightarrow> Finished Completed vars' s'
      | r \<Rightarrow> r)"
| "run_stmt builtins WhileTruePass vars s = Diverges"

fun run :: "env \<Rightarrow> stmt list \<Rightarrow> env \<Rightarrow> process \<Rightarrow> run_result" where
  "run builtins [] vars s = Finished Completed vars s"
| "run builtins (st # rest) vars s =
     (case run_stmt builtins st vars s of
        Finished Completed vars' s' \<Rightarrow> run builtins rest vars' s'
      | r \<Rightarrow> r)"

definition builtins_of :: "(string \<times> pyval) list \<Rightarrow> env" where
  "builtins_of g = (case map_of g ''__builtins__'' of Some (VDict d) \<Rightarrow> map_of d | _ \<Rightarrow> Map.empty)"

definition not_modelled :: py_exception where
  "not_modelled =
     \<lparr>exc_class = ''NotModelled'', is_Exception = True,
      exc_str = ''outside the modelled fragment''\<rparr>"

definition python_exec :: exec_fun where
  "python_exec code g s =
     (case parse code of
        None \<Rightarrow> Some (Raised not_modelled, s)
      | Some prog \<Rightarrow>
          (case run (builtins_of g) prog (map_of g) s of
             Finished r vars s' \<Rightarrow> Some (r, s')
           | Diverges \<Rightarrow> None
           | Unmodelled \<Rightarrow> Some (Raised not_modelled, s)))"

subsection \<open>Notions the properties are stated with\<close>




text \<open>
  A pure source: in every process state it ends with the same result \<open>r\<close> and its only
  effect is to write the same text \<open>T\<close> to the current standard output.
\<close>

definition stdout_only :: "exec_fun \<Rightarrow> string \<Rightarrow> exec_result \<Rightarrow> string \<Rightarrow> bool" where
  "stdout_only exec code r T \<longleftrightarrow>
     (\<forall>s. exec code exec_globals s = Some (r, write_stream (sys_stdout s) T s))"

text \<open>A process whose standard output is stream 0, with nothing written yet.\<close>

definition initial_process :: process where
  "initial_process = \<lparr>sys_stdout = 0, streams = (\<lambda>a. []), fresh = 1\<rparr>"

text \<open>
  The categories of section 4.1 of the specification, following its words: output
  emission, length queries, string, number and boolean construction, ordered-sequence
  construction, the aggregate numeric operations, and sorting.
\<close>

datatype category =
  OutputEmission | LengthQuery | ValueConstruction | SequenceConstruction
  | AggregateNumeric | Sorting

definition spec_categories :: "(string \<times> category) list" where
  "spec_categories =
    [(''print'', OutputEmission),
     (''len'', LengthQuery),
     (''str'', ValueConstruction), (''int'', ValueConstruction),
     (''float'', ValueConstruction), (''bool'', ValueConstruction),
     (''list'', SequenceConstruction), (''range'', SequenceConstruction),
     (''enumerate'', SequenceConstruction), (''zip'', SequenceConstruction),
     (''sum'', AggregateNumeric), (''min'', AggregateNumeric), (''max'', AggregateNumeric),
     (''round'', AggregateNumeric), (''abs'', AggregateNumeric),
     (''sorted'', Sorting)]"

section \<open>Basic facts\<close>

subsection \<open>The three ways out of \<open>execute_code_safely\<close>\<close>

lemma redirect_stdout_eq:
  "redirect_stdout s =
     (fresh s, s\<lparr>streams := (streams s)(fresh s := []), fresh := Suc (fresh s),
                 sys_stdout := fresh s\<rparr>)"
  by (simp add: redirect_stdout_def StringIO_def)


lemma execute_Completed:
  "exec code exec_globals (snd (redirect_stdout s)) = Some (Completed, s3) \<Longrightarrow>
   execute_code_safely exec code s =
     Some (Returned (if getvalue s3 (fst (redirect_stdout s)) \<noteq> []
                     then getvalue s3 (fst (redirect_stdout s))
                     else ''Code executed successfully (no output)''),
           s3\<lparr>sys_stdout := sys_stdout s\<rparr>)"
  by (cases "redirect_stdout s") (simp add: execute_code_safely_def Let_def)

lemma execute_Raised:
  "exec code exec_globals (snd (redirect_stdout s)) = Some (Raised e, s3) \<Longrightarrow>
   execute_code_safely exec code s =
     Some (if is_Exception e then Returned (''Error: '' @ exc_str e) else Propagated e,
           s3\<lparr>sys_stdout := sys_stdout s\<rparr>)"
  by (cases "redirect_stdout s") (simp add: execute_code_safely_def Let_def)

text \<open>The new stream is empty, and it is where the standard output now writes.\<close>

lemma getvalue_redirect:
  "getvalue (snd (redirect_stdout s)) (fst (redirect_stdout s)) = []"
  by (simp add: redirect_stdout_eq getvalue_def)

lemma getvalue_redirect_write:
  "getvalue (write_stream (sys_stdout (snd (redirect_stdout s))) T (snd (redirect_stdout s)))
     (fst (redirect_stdout s)) = T"
  by (simp add: redirect_stdout_eq write_stream_def getvalue_def)

subsection \<open>The fragment on concrete texts\<close>

lemmas lexical_defs =
  is_digit_def is_id_start_def is_id_char_def py_keywords_def is_identifier_def
  is_int_literal_def digit_value_def int_of_literal_def is_str_char_def is_str_literal_def

lemmas parser_defs =
  strip_prefix_def strip_suffix_def parse_literal_def parse_atom_def parse_raise_def
  parse_simple_def parse_def

lemmas evaluation_defs =
  name_error_def zero_division_error_def not_callable_def no_self_attribute_def
  is_function_def builtin_name_def py_str_def host_exception_classes_def resolve_def
  call_def raise_host_def builtins_of_def exec_globals_def allowlist_def

lemma parse_print_hi: "parse ''print('hi')'' = Some [PrintCall (StrLit ''hi'')]"
  by (simp add: parser_defs lexical_defs)

lemma parse_assign: "parse ''x = 1'' = Some [Assign ''x'' (IntLit 1)]"
  by (simp add: parser_defs lexical_defs)

lemma parse_empty: "parse [] = Some []"
  by (simp add: parser_defs)



lemma parse_undefined:
  "parse ''print(undefined_name)'' = Some [PrintCall (Name ''undefined_name'')]"
  by (simp add: parser_defs lexical_defs)

lemma parse_print_x: "parse ''print(x)'' = Some [PrintCall (Name ''x'')]"
  by (simp add: parser_defs lexical_defs)





lemma python_exec_print_hi:
  "python_exec ''print('hi')'' exec_globals s =
     Some (Completed, write_stream (sys_stdout s) ''hi\<newline>'' s)"
  by (simp add: python_exec_def parse_print_hi evaluation_defs)

lemma python_exec_assign: "python_exec ''x = 1'' exec_globals s = Some (Completed, s)"
  by (simp add: python_exec_def parse_assign evaluation_defs)

lemma python_exec_empty: "python_exec [] exec_globals s = Some (Completed, s)"
  by (simp add: python_exec_def parse_empty)



lemma python_exec_undefined:
  "python_exec ''print(undefined_name)'' exec_globals s =
     Some (Raised (name_error ''undefined_name''), s)"
  by (simp add: python_exec_def parse_undefined evaluation_defs)

lemma python_exec_print_x:
  "python_exec ''print(x)'' exec_globals s = Some (Raised (name_error ''x''), s)"
  by (simp add: python_exec_def parse_print_x evaluation_defs)





subsection \<open>Running a program in two parts; the names the allowlist binds\<close>





text \<open>
  A variable that one call binds is gone in the next call: each call passes a new
  dictionary to \<^verbatim>\<open>exec\<close>.
\<close>

lemma variables_do_not_survive:
  "\<exists>s1 s2. execute_code_safely python_exec ''x = 1'' initial_process =
             Some (Returned ''Code executed successfully (no output)'', s1)
         \<and> execute_code_safely python_exec ''print(x)'' s1 =
             Some (Returned ''Error: name 'x' is not defined'', s2)"
  by (simp add: execute_Completed execute_Raised python_exec_assign python_exec_print_x
      getvalue_redirect name_error_def)

section \<open>The claims\<close>

subsection \<open>C1: which executions return to the caller\<close>




subsection \<open>C2: the standard output is restored\<close>



subsection \<open>C3 and C4: the two forms of success\<close>





subsection \<open>C5: identifiers outside the allowlist\<close>




subsection \<open>C6: the names of the allowlist\<close>

text \<open>
  Claim C6 as stated says that the bound names are those of the stated categories, a
  boolean constructor among them, and no others. The dictionary of lines 180 to 197 has no
  entry \<^verbatim>\<open>bool\<close>, and it has the entry \<^verbatim>\<open>dict\<close>, which no stated category covers.
\<close>

theorem allowlist_categories_counterexample:
  "''bool'' \<in> set (map fst spec_categories) \<and> ''bool'' \<notin> set (map fst allowlist)
   \<and> ''dict'' \<in> set (map fst allowlist) \<and> ''dict'' \<notin> set (map fst spec_categories)"
  by (simp add: allowlist_def spec_categories_def)

text \<open>
  Claim C6, amended. The allowlist binds sixteen names, each once: those of the stated
  categories without \<^verbatim>\<open>bool\<close>, and \<^verbatim>\<open>dict\<close>.
\<close>

theorem allowlist_names:
  "map fst allowlist =
     [''print'', ''len'', ''str'', ''int'', ''float'', ''list'', ''dict'', ''range'',
      ''enumerate'', ''zip'', ''max'', ''min'', ''sum'', ''sorted'', ''abs'', ''round'']
   \<and> set (map fst allowlist) = set (''dict'' # removeAll ''bool'' (map fst spec_categories))
   \<and> distinct (map fst allowlist)"
  unfolding allowlist_def spec_categories_def by (simp add: insert_commute)

subsection \<open>C7: the text of a failure\<close>



subsection \<open>C8: a pure source gives the same result twice\<close>

text \<open>
  Claim C8. For a pure source, a call of \<^verbatim>\<open>execute\<close> and a second call, made in the
  process state that the first one left, give the same result: the stream, the
  dictionary and the variables of the first call have no influence on the second.
\<close>

theorem pure_source_repeatable:
  assumes "stdout_only exec code r T"
  shows "\<exists>v s1 s2. execute_code_safely exec code s = Some (v, s1)
           \<and> execute_code_safely exec code s1 = Some (v, s2)"
proof -
  have run: "exec code exec_globals (snd (redirect_stdout u)) =
          Some (r, write_stream (sys_stdout (snd (redirect_stdout u))) T (snd (redirect_stdout u)))"
    for u
    using assms by (simp add: stdout_only_def)
  show ?thesis
  proof (cases r)
    case Completed
    show ?thesis
      using run [of s] run [of "write_stream (sys_stdout (snd (redirect_stdout s))) T
             (snd (redirect_stdout s))\<lparr>sys_stdout := sys_stdout s\<rparr>"]
      unfolding Completed
      by (simp add: execute_Completed getvalue_redirect_write)
  next
    case (Raised e)
    show ?thesis
      using run [of s] run [of "write_stream (sys_stdout (snd (redirect_stdout s))) T
             (snd (redirect_stdout s))\<lparr>sys_stdout := sys_stdout s\<rparr>"]
      unfolding Raised
      by (simp add: execute_Raised)
  qed
qed

text \<open>C8 at the source \<^verbatim>\<open>print('hi')\<close>, run twice in a row.\<close>

theorem pure_source_repeatable_witness:
  "\<exists>s1 s2. execute_code_safely python_exec ''print('hi')'' initial_process =
             Some (Returned ''hi\<newline>'', s1)
         \<and> execute_code_safely python_exec ''print('hi')'' s1 = Some (Returned ''hi\<newline>'', s2)"
proof -
  have pure: "stdout_only python_exec ''print('hi')'' Completed ''hi\<newline>''"
    by (simp add: stdout_only_def python_exec_print_hi)
  from pure_source_repeatable [OF pure, of initial_process]
  obtain v s1 s2 where
    a: "execute_code_safely python_exec ''print('hi')'' initial_process = Some (v, s1)" and
    b: "execute_code_safely python_exec ''print('hi')'' s1 = Some (v, s2)"
    by blast
  have "execute_code_safely python_exec ''print('hi')'' initial_process =
          Some (Returned ''hi\<newline>'',
            write_stream (sys_stdout (snd (redirect_stdout initial_process))) ''hi\<newline>''
              (snd (redirect_stdout initial_process))\<lparr>sys_stdout := sys_stdout initial_process\<rparr>)"
    by (simp add: execute_Completed python_exec_print_hi getvalue_redirect_write)
  with a have "v = Returned ''hi\<newline>''" by simp
  with a b show ?thesis by blast
qed

subsection \<open>C9: the empty source\<close>

text \<open>
  Claim C9. The empty source text is executed like any other: nothing is written, and
  the value returned is the sentinel, not a failure.
\<close>

theorem empty_source_succeeds:
  "execute_code_safely python_exec [] s =
     Some (Returned ''Code executed successfully (no output)'',
           snd (redirect_stdout s)\<lparr>sys_stdout := sys_stdout s\<rparr>)"
  by (simp add: execute_Completed python_exec_empty getvalue_redirect)

text \<open>C9 in the initial process.\<close>

theorem empty_source_succeeds_witness:
  "map_option fst (execute_code_safely python_exec [] initial_process) =
     Some (Returned ''Code executed successfully (no output)'')"
  using empty_source_succeeds [of initial_process] by simp

subsection \<open>C10: output written before a fault\<close>



end
